theory Spec2Isabelle
  imports Main "HOL-Library.Word"
begin

section \<open>Data model\<close>

text \<open>
  The objects of \<^verbatim>\<open>src/frontend/app/page.tsx\<close>, with the fields the page reads.
  A JavaScript string that the page only compares and passes on is a \<^typ>\<open>string\<close>; a
  field that may be \<^verbatim>\<open>null\<close> is an option. Field names carry the record's name as a
  prefix, since \<^verbatim>\<open>id\<close> and \<^verbatim>\<open>name\<close> occur in several objects.
\<close>

text \<open>
  The text of a comment is the one string whose characters the page looks at
  (\<^verbatim>\<open>newComment.trim()\<close>, line 349): it is kept as the sequence of its UTF-16 code units.
\<close>

type_synonym code_unit = "16 word"

record card =
  card_id :: string
  card_column_id :: string
  card_title :: string
  card_description :: "string option"
  card_priority :: string
  card_labels :: "string list"
  card_assigned_to :: "string option"

record column =
  col_id :: string
  col_name :: string
  col_cards :: "card list"

record board =
  board_id :: string
  board_name :: string
  board_columns :: "column list"

text \<open>An entry of \<^verbatim>\<open>response.data.boards\<close> (line 65): only its \<^verbatim>\<open>id\<close> is read.\<close>

record board_summary =
  summary_id :: string

record comment =
  comment_id :: string
  comment_card_id :: string
  comment_author :: string
  comment_text :: "code_unit list"
  comment_created_at :: string

subsection \<open>Request bodies\<close>

text \<open>Body of \<^verbatim>\<open>POST /api/cards\<close> (lines 99-106).\<close>

record card_create =
  create_column_id :: string
  create_title :: string
  create_description :: string
  create_priority :: string
  create_labels :: "string list"
  create_assigned_to :: string

text \<open>
  Body of \<^verbatim>\<open>POST /api/cards/move\<close> (lines 153-157): the keys \<^verbatim>\<open>card_id\<close>,
  \<^verbatim>\<open>target_column_id\<close> and \<^verbatim>\<open>position\<close>.
\<close>

record card_move =
  move_card_id :: string
  move_target_column_id :: string
  move_position :: nat

text \<open>Body of \<^verbatim>\<open>POST /api/comments\<close> (lines 352-356): \<^verbatim>\<open>card_id\<close>, \<^verbatim>\<open>author\<close>, \<^verbatim>\<open>text\<close>.\<close>

record comment_create =
  post_card_id :: string
  post_author :: string
  post_text :: "code_unit list"

text \<open>The \<^verbatim>\<open>updates\<close> object that \<^verbatim>\<open>handleSave\<close> builds (line 365).\<close>

record card_updates =
  upd_title :: string
  upd_description :: "string option"
  upd_priority :: string

text \<open>Every call of axios in the page, with its URL parameter and its body.\<close>

datatype request =
    GET_boards
  | GET_board string
  | POST_cards card_create
  | PUT_card string card
  | DELETE_card string
  | POST_cards_move card_move
  | GET_comments string
  | POST_comments comment_create

text \<open>
  What an awaited axios call gives back: the promise is rejected (network error or a
  status outside 2xx), or it resolves with the body of the response. The body of a read
  request is an option: data of the shape the endpoint promises, or \<^const>\<open>None\<close> for the
  body \<^verbatim>\<open>null\<close>, which decodes to nothing of that shape and which the page receives like
  any other body. The body of a write request is never read.
\<close>

datatype 'a reply = Rejected | Resolved 'a

subsection \<open>The drop result of the drag-and-drop library\<close>

record location =
  droppableId :: string
  index :: nat

record drop_result =
  draggableId :: string
  source :: location
  destination :: "location option"

subsection \<open>Wire messages\<close>

text \<open>
  The values \<^verbatim>\<open>JSON.parse\<close> returns. An object is the list of its properties, each
  key once. A number is kept as an integer: the page never looks at one.
\<close>

datatype js_value =
    Null
  | Boolean bool
  | Number int
  | String string
  | Array "js_value list"
  | Object "(string \<times> js_value) list"

text \<open>
  \<^verbatim>\<open>event.data\<close> of a message event. The parser is the engine's, so a wire message is
  given by what the engine makes of it: text that is not JSON, or the text of a value.
\<close>

datatype wire = NotJSON string | JSONText js_value

datatype exn = SyntaxError | TypeError

fun JSON_parse :: "wire \<Rightarrow> exn + js_value" where
  "JSON_parse (NotJSON t) = Inl SyntaxError"
| "JSON_parse (JSONText v) = Inr v"

text \<open>
  \<^verbatim>\<open>message.type\<close>: reading a property of \<^verbatim>\<open>null\<close> throws; an object gives the value
  under the key, and every other value (and an object without the key) gives
  \<^verbatim>\<open>undefined\<close>, here \<^const>\<open>None\<close>.
\<close>

fun message_type :: "js_value \<Rightarrow> exn + js_value option" where
  "message_type Null = Inl TypeError"
| "message_type (Object kvs) = Inr (map_of kvs ''type'')"
| "message_type v = Inr None"

section \<open>State\<close>

datatype ready_state = CONNECTING | OPEN | CLOSING | CLOSED

text \<open>
  A WebSocket object: its ready state, and whether each handler property has been
  assigned. The page has one closure for each handler (lines 23-43), so a flag tells
  which sockets carry it.
\<close>

record websocket =
  readyState :: ready_state
  has_onopen :: bool
  has_onmessage :: bool
  has_onerror :: bool
  has_onclose :: bool

text \<open>
  Where an async function is suspended, with what its closure holds: the number of the
  \<^verbatim>\<open>CardModal\<close> instance, and the card's id for \<^verbatim>\<open>addComment\<close>, which calls
  \<^verbatim>\<open>loadComments\<close> once it resumes.
\<close>

datatype awaiting =
    LoadBoard_boards
  | LoadBoard_board
  | CreateCard_post
  | UpdateCard_put
  | DeleteCard_delete
  | OnDragEnd_post
  | LoadComments_get nat
  | AddComment_post nat string

text \<open>The state hooks of one \<^verbatim>\<open>CardModal\<close> instance (lines 327-331).\<close>

record card_modal =
  modal_instance :: nat
  effect_card_id :: string
  modal_title :: string
  modal_description :: "string option"
  modal_priority :: string
  comments :: "comment list"
  newComment :: "code_unit list"

text \<open>
  The state hooks of \<^verbatim>\<open>Home\<close> (lines 12-17), the mounted modal, and the environment the
  page acts on: the sockets created so far, the delays of the timers not yet fired, the
  requests sent (in order), the suspended async functions (each with the position of its
  request in \<open>requests\<close>), and the console.
\<close>

record app =
  board :: "board option"
  ws :: "nat option"
  username :: string
  showCardModal :: bool
  selectedCard :: "card option"
  searchQuery :: string
  modal :: "card_modal option"
  mounts :: nat
  sockets :: "websocket list"
  timers :: "nat list"
  requests :: "request list"
  pending :: "(nat \<times> awaiting) list"
  console :: "string list"

section \<open>Effects\<close>

definition console_log :: "string \<Rightarrow> app \<Rightarrow> app" where
  "console_log line s = s\<lparr>console := console s @ [line]\<rparr>"

text \<open>
  An axios call followed by \<^verbatim>\<open>await\<close>: the request goes out and the caller is suspended
  until the reply to it comes.
\<close>

definition send :: "request \<Rightarrow> awaiting \<Rightarrow> app \<Rightarrow> app" where
  "send r k s =
     s\<lparr>requests := requests s @ [r], pending := pending s @ [(length (requests s), k)]\<rparr>"

definition settle :: "nat \<Rightarrow> app \<Rightarrow> app" where
  "settle n s = s\<lparr>pending := filter (\<lambda>p. fst p \<noteq> n) (pending s)\<rparr>"

text \<open>\<^verbatim>\<open>new WebSocket(WS_URL)\<close>: a connecting socket with no handler; its position is returned.\<close>

definition new_WebSocket :: "app \<Rightarrow> nat \<times> app" where
  "new_WebSocket s =
     (length (sockets s),
      s\<lparr>sockets := sockets s @
         [\<lparr>readyState = CONNECTING, has_onopen = False, has_onmessage = False,
           has_onerror = False, has_onclose = False\<rparr>]\<rparr>)"

section \<open>The page component \<^verbatim>\<open>Home\<close>\<close>

subsection \<open>\<^verbatim>\<open>loadBoard\<close> (lines 62-75)\<close>

text \<open>
  An async function is one definition for each stretch between two \<^verbatim>\<open>await\<close>s: the
  first runs when the function is called, the others when the reply to the awaited
  request comes. The \<^verbatim>\<open>catch\<close> block is the \<^const>\<open>Rejected\<close> branch.
\<close>

definition loadBoard :: "app \<Rightarrow> app" where
  "loadBoard s = send GET_boards LoadBoard_boards s"

text \<open>
  With the body \<^verbatim>\<open>null\<close>, \<^verbatim>\<open>response.data.boards\<close> (line 65) throws inside the \<^verbatim>\<open>try\<close>.
  \<^verbatim>\<open>setBoard(boardResponse.data)\<close> (line 70) stores the body as it comes.
\<close>

definition loadBoard_boards :: "board_summary list option reply \<Rightarrow> app \<Rightarrow> app" where
  "loadBoard_boards r s =
     (case r of
        Rejected \<Rightarrow> console_log ''Error loading board:'' s
      | Resolved None \<Rightarrow> console_log ''Error loading board:'' s
      | Resolved (Some boards) \<Rightarrow>
          if length boards > 0
          then send (GET_board (summary_id (boards ! 0))) LoadBoard_board s
          else s)"

definition loadBoard_board :: "board option reply \<Rightarrow> app \<Rightarrow> app" where
  "loadBoard_board r s =
     (case r of
        Rejected \<Rightarrow> console_log ''Error loading board:'' s
      | Resolved data \<Rightarrow> s\<lparr>board := data\<rparr>)"

subsection \<open>\<^verbatim>\<open>handleWebSocketMessage\<close> (lines 77-92)\<close>

text \<open>The six \<^verbatim>\<open>case\<close> labels of the switch, compared with \<^verbatim>\<open>===\<close>.\<close>

definition change_event :: "js_value option \<Rightarrow> bool" where
  "change_event t =
     (t = Some (String ''card_created'') \<or> t = Some (String ''card_updated'') \<or>
      t = Some (String ''card_moved'') \<or> t = Some (String ''card_deleted'') \<or>
      t = Some (String ''column_created'') \<or> t = Some (String ''comment_created''))"

text \<open>
  The result is the exception that leaves the handler, if any, and the state: the line
  logged before \<^verbatim>\<open>message.type\<close> throws stays logged.
\<close>

definition handleWebSocketMessage :: "js_value \<Rightarrow> app \<Rightarrow> exn option \<times> app" where
  "handleWebSocketMessage message s =
     (let s1 = console_log ''WebSocket message:'' s in
      case message_type message of
        Inl e \<Rightarrow> (Some e, s1)
      | Inr t \<Rightarrow> (None, if change_event t then loadBoard s1 else s1))"

subsection \<open>The handlers of the socket (lines 23-43)\<close>

definition onopen :: "app \<Rightarrow> app" where
  "onopen s = console_log ''WebSocket connected'' s"

definition onmessage :: "wire \<Rightarrow> app \<Rightarrow> exn option \<times> app" where
  "onmessage data s =
     (case JSON_parse data of
        Inl e \<Rightarrow> (Some e, s)
      | Inr message \<Rightarrow> handleWebSocketMessage message s)"

definition onerror :: "app \<Rightarrow> app" where
  "onerror s = console_log ''WebSocket error:'' s"

text \<open>\<^verbatim>\<open>setTimeout(..., 3000)\<close>: a timer of 3000 milliseconds is started.\<close>

definition onclose :: "app \<Rightarrow> app" where
  "onclose s = (let s1 = console_log ''WebSocket disconnected'' s in s1\<lparr>timers := timers s1 @ [3000]\<rparr>)"

text \<open>The callback of that timer (lines 40-41).\<close>

definition reconnect :: "app \<Rightarrow> app" where
  "reconnect s = (let (i, s1) = new_WebSocket s in s1\<lparr>ws := Some i\<rparr>)"

subsection \<open>\<^verbatim>\<open>createCard\<close> (lines 94-110)\<close>

text \<open>\<open>answer\<close> is what \<^verbatim>\<open>prompt\<close> returns: \<^verbatim>\<open>null\<close> when the user cancels.\<close>

definition createCard :: "string \<Rightarrow> string option \<Rightarrow> app \<Rightarrow> app" where
  "createCard columnId answer s =
     (case answer of
        None \<Rightarrow> s
      | Some title \<Rightarrow>
          if title = [] then s
          else send (POST_cards \<lparr>create_column_id = columnId, create_title = title,
                      create_description = [], create_priority = ''medium'',
                      create_labels = [], create_assigned_to = username s\<rparr>)
                 CreateCard_post s)"

definition createCard_post :: "unit reply \<Rightarrow> app \<Rightarrow> app" where
  "createCard_post r s =
     (case r of Rejected \<Rightarrow> console_log ''Error creating card:'' s | Resolved u \<Rightarrow> s)"

subsection \<open>\<^verbatim>\<open>findCard\<close> (lines 139-145) and \<^verbatim>\<open>updateCard\<close> (lines 112-125)\<close>

fun findCard_columns :: "column list \<Rightarrow> string \<Rightarrow> card option" where
  "findCard_columns [] cardId = None"
| "findCard_columns (column # columns) cardId =
     (case find (\<lambda>c. card_id c = cardId) (col_cards column) of
        Some c \<Rightarrow> Some c
      | None \<Rightarrow> findCard_columns columns cardId)"

text \<open>\<^verbatim>\<open>board.columns\<close> throws while \<^verbatim>\<open>board\<close> is \<^verbatim>\<open>null\<close>.\<close>

definition findCard :: "board option \<Rightarrow> string \<Rightarrow> exn + card option" where
  "findCard b cardId =
     (case b of
        None \<Rightarrow> Inl TypeError
      | Some data \<Rightarrow> Inr (findCard_columns (board_columns data) cardId))"

text \<open>
  The body is \<^verbatim>\<open>{column_id: card.column_id, ...card, ...updates}\<close>, with the card as \<open>c\<close>. \<^verbatim>\<open>findCard\<close> is called
  inside the \<^verbatim>\<open>try\<close>, and so is \<^verbatim>\<open>card.column_id\<close>, which throws when no card was found.
\<close>

definition updateCard :: "string \<Rightarrow> card_updates \<Rightarrow> app \<Rightarrow> app" where
  "updateCard cardId updates s =
     (case findCard (board s) cardId of
        Inl e \<Rightarrow> console_log ''Error updating card:'' s
      | Inr None \<Rightarrow> console_log ''Error updating card:'' s
      | Inr (Some c) \<Rightarrow>
          send (PUT_card cardId
                 (c\<lparr>card_column_id := card_column_id c,
                        card_title := upd_title updates,
                        card_description := upd_description updates,
                        card_priority := upd_priority updates\<rparr>))
            UpdateCard_put s)"

definition updateCard_put :: "unit reply \<Rightarrow> app \<Rightarrow> app" where
  "updateCard_put r s =
     (case r of
        Rejected \<Rightarrow> console_log ''Error updating card:'' s
      | Resolved u \<Rightarrow> s\<lparr>showCardModal := False, selectedCard := None\<rparr>)"

subsection \<open>\<^verbatim>\<open>deleteCard\<close> (lines 127-137)\<close>

text \<open>\<open>confirmed\<close> is what \<^verbatim>\<open>window.confirm\<close> returns.\<close>

definition deleteCard :: "string \<Rightarrow> bool \<Rightarrow> app \<Rightarrow> app" where
  "deleteCard cardId confirmed s =
     (if \<not> confirmed then s else send (DELETE_card cardId) DeleteCard_delete s)"

definition deleteCard_delete :: "unit reply \<Rightarrow> app \<Rightarrow> app" where
  "deleteCard_delete r s =
     (case r of
        Rejected \<Rightarrow> console_log ''Error deleting card:'' s
      | Resolved u \<Rightarrow> s\<lparr>showCardModal := False, selectedCard := None\<rparr>)"

subsection \<open>\<^verbatim>\<open>onDragEnd\<close> (lines 147-161)\<close>

definition onDragEnd :: "drop_result \<Rightarrow> app \<Rightarrow> app" where
  "onDragEnd result s =
     (case destination result of
        None \<Rightarrow> s
      | Some dest \<Rightarrow>
          send (POST_cards_move \<lparr>move_card_id = draggableId result,
                  move_target_column_id = droppableId dest,
                  move_position = index dest\<rparr>)
            OnDragEnd_post s)"

definition onDragEnd_post :: "unit reply \<Rightarrow> app \<Rightarrow> app" where
  "onDragEnd_post r s =
     (case r of Rejected \<Rightarrow> console_log ''Error moving card:'' s | Resolved u \<Rightarrow> s)"

subsection \<open>\<^verbatim>\<open>openCardModal\<close> (lines 163-166) and \<^verbatim>\<open>onClose\<close> (lines 313-316)\<close>

definition openCardModal :: "card \<Rightarrow> app \<Rightarrow> app" where
  "openCardModal c s = s\<lparr>selectedCard := Some c, showCardModal := True\<rparr>"

definition onClose :: "app \<Rightarrow> app" where
  "onClose s = s\<lparr>showCardModal := False, selectedCard := None\<rparr>"

section \<open>The component \<^verbatim>\<open>CardModal\<close> (lines 326-366)\<close>

text \<open>
  A state setter of the instance numbered \<open>k\<close>. Once that instance is unmounted the
  setter changes nothing.
\<close>

definition set_modal :: "nat \<Rightarrow> (card_modal \<Rightarrow> card_modal) \<Rightarrow> app \<Rightarrow> app" where
  "set_modal k f s =
     (case modal s of
        None \<Rightarrow> s
      | Some m \<Rightarrow> if modal_instance m = k then s\<lparr>modal := Some (f m)\<rparr> else s)"

definition setComments :: "nat \<Rightarrow> comment list \<Rightarrow> app \<Rightarrow> app" where
  "setComments k cs s = set_modal k (\<lambda>m. m\<lparr>comments := cs\<rparr>) s"

definition setNewComment :: "nat \<Rightarrow> code_unit list \<Rightarrow> app \<Rightarrow> app" where
  "setNewComment k t s = set_modal k (\<lambda>m. m\<lparr>newComment := t\<rparr>) s"

subsection \<open>\<^verbatim>\<open>loadComments\<close> (lines 337-346)\<close>

definition loadComments :: "nat \<Rightarrow> string \<Rightarrow> app \<Rightarrow> app" where
  "loadComments k cardId s = send (GET_comments cardId) (LoadComments_get k) s"

text \<open>With the body \<^verbatim>\<open>null\<close>, \<^verbatim>\<open>response.data.comments\<close> (line 342) throws inside the \<^verbatim>\<open>try\<close>.\<close>

definition loadComments_get :: "nat \<Rightarrow> comment list option reply \<Rightarrow> app \<Rightarrow> app" where
  "loadComments_get k r s =
     (case r of
        Rejected \<Rightarrow> console_log ''Error loading comments:'' s
      | Resolved None \<Rightarrow> console_log ''Error loading comments:'' s
      | Resolved (Some cs) \<Rightarrow> setComments k cs s)"

subsection \<open>\<^verbatim>\<open>addComment\<close> (lines 348-362)\<close>

text \<open>
  \<^verbatim>\<open>String.prototype.trim\<close> strips white space and line terminators from both ends. The
  code units stripped are U+0009 to U+000D (TAB, LF, VT, FF, CR), U+0020 (SPACE), U+00A0
  (NO-BREAK SPACE), U+1680, U+2000 to U+200A, U+2028, U+2029, U+202F, U+205F, U+3000 and
  U+FEFF, written here in decimal.
\<close>

definition isWhiteSpace :: "code_unit \<Rightarrow> bool" where
  "isWhiteSpace c =
     ((9 \<le> c \<and> c \<le> 13) \<or> c = 32 \<or> c = 160 \<or> c = 5760 \<or> (8192 \<le> c \<and> c \<le> 8202) \<or>
      c = 8232 \<or> c = 8233 \<or> c = 8239 \<or> c = 8287 \<or> c = 12288 \<or> c = 65279)"

definition trim :: "code_unit list \<Rightarrow> code_unit list" where
  "trim t = rev (dropWhile isWhiteSpace (rev (dropWhile isWhiteSpace t)))"

text \<open>
  \<open>c\<close> is the \<^verbatim>\<open>card\<close> prop and \<open>m\<close> the hooks of the instance, as of its last render;
  \<^verbatim>\<open>!newComment.trim()\<close> holds when the trimmed string is empty.
\<close>

definition addComment :: "card \<Rightarrow> card_modal \<Rightarrow> app \<Rightarrow> app" where
  "addComment c m s =
     (if trim (newComment m) = [] then s
      else send (POST_comments \<lparr>post_card_id = card_id c, post_author = username s,
                   post_text = newComment m\<rparr>)
             (AddComment_post (modal_instance m) (card_id c)) s)"

definition addComment_post :: "nat \<Rightarrow> string \<Rightarrow> unit reply \<Rightarrow> app \<Rightarrow> app" where
  "addComment_post k cardId r s =
     (case r of
        Rejected \<Rightarrow> console_log ''Error adding comment:'' s
      | Resolved u \<Rightarrow> loadComments k cardId (setNewComment k [] s))"

subsection \<open>\<^verbatim>\<open>handleSave\<close> (lines 364-366)\<close>

text \<open>\<^verbatim>\<open>onUpdate\<close> is \<^verbatim>\<open>updateCard\<close> of the page (line 317).\<close>

definition handleSave :: "card \<Rightarrow> card_modal \<Rightarrow> app \<Rightarrow> app" where
  "handleSave c m s =
     updateCard (card_id c)
       \<lparr>upd_title = modal_title m, upd_description = modal_description m,
        upd_priority = modal_priority m\<rparr> s"

subsection \<open>Rendering the modal (lines 310-321 and 327-335)\<close>

text \<open>
  While \<^verbatim>\<open>board\<close> is \<^verbatim>\<open>null\<close> the page returns the loading screen (lines 191-206) and no
  modal is rendered. Otherwise, after every update, the page renders \<^verbatim>\<open>CardModal\<close> when
  \<^verbatim>\<open>showCardModal && selectedCard\<close>. A new instance starts from the card's fields with no
  comments, and its effect calls \<^verbatim>\<open>loadComments\<close>; a mounted instance keeps its hooks, and
  the effect runs again when \<^verbatim>\<open>card.id\<close> has changed. Otherwise the instance is unmounted.
\<close>

definition render :: "app \<Rightarrow> app" where
  "render s =
     (case board s of
        None \<Rightarrow> s\<lparr>modal := None\<rparr>
      | Some data \<Rightarrow>
          (case (showCardModal s, selectedCard s) of
             (True, Some c) \<Rightarrow>
               (case modal s of
                  None \<Rightarrow>
                    loadComments (mounts s) (card_id c)
                      (s\<lparr>modal := Some \<lparr>modal_instance = mounts s, effect_card_id = card_id c,
                             modal_title = card_title c, modal_description = card_description c,
                             modal_priority = card_priority c, comments = [], newComment = []\<rparr>,
                         mounts := Suc (mounts s)\<rparr>)
                | Some m \<Rightarrow>
                    if effect_card_id m = card_id c then s
                    else loadComments (modal_instance m) (card_id c)
                           (s\<lparr>modal := Some (m\<lparr>effect_card_id := card_id c\<rparr>)\<rparr>))
           | other \<Rightarrow> s\<lparr>modal := None\<rparr>))"

section \<open>The event loop\<close>

text \<open>
  What the browser, the server and the user do to the page: the events of the socket
  numbered \<open>i\<close>, the timer at position \<open>k\<close> firing, the reply to the request numbered
  \<open>n\<close> (one kind for each shape of body), and the user's actions.
\<close>

datatype event =
    Open nat
  | Message nat wire
  | Error nat
  | Close nat
  | Timeout nat
  | Boards_reply nat "board_summary list option reply"
  | Board_reply nat "board option reply"
  | Comments_reply nat "comment list option reply"
  | Write_reply nat "unit reply"
  | Add_card string "string option"
  | Drag_end drop_result
  | Click_card card
  | Close_modal
  | Edit_title string
  | Edit_description string
  | Edit_priority string
  | Edit_comment "code_unit list"
  | Post_comment
  | Save
  | Delete bool
  | Search string

definition set_readyState :: "nat \<Rightarrow> ready_state \<Rightarrow> app \<Rightarrow> app" where
  "set_readyState i st s = s\<lparr>sockets := (sockets s)[i := (sockets s ! i)\<lparr>readyState := st\<rparr>]\<rparr>"

text \<open>The prop \<^verbatim>\<open>card\<close> and the hooks of the mounted modal, for its buttons and inputs.\<close>

definition with_modal :: "(card \<Rightarrow> card_modal \<Rightarrow> app \<Rightarrow> app) \<Rightarrow> app \<Rightarrow> app" where
  "with_modal f s =
     (case (selectedCard s, modal s) of
        (Some c, Some m) \<Rightarrow> f c m s
      | other \<Rightarrow> s)"

text \<open>
  One turn of the event loop, up to the render. A socket event runs the handler the
  socket carries, if any; a reply resumes the function suspended on that request, if
  there is one and the reply is of its kind.
\<close>

fun step :: "event \<Rightarrow> app \<Rightarrow> exn option \<times> app" where
  "step (Open i) s =
     (if i < length (sockets s)
      then (let s1 = set_readyState i OPEN s in
            (None, if has_onopen (sockets s ! i) then onopen s1 else s1))
      else (None, s))"
| "step (Message i data) s =
     (if i < length (sockets s) \<and> has_onmessage (sockets s ! i) then onmessage data s
      else (None, s))"
| "step (Error i) s =
     (if i < length (sockets s) \<and> has_onerror (sockets s ! i) then (None, onerror s)
      else (None, s))"
| "step (Close i) s =
     (if i < length (sockets s)
      then (let s1 = set_readyState i CLOSED s in
            (None, if has_onclose (sockets s ! i) then onclose s1 else s1))
      else (None, s))"
| "step (Timeout k) s =
     (if k < length (timers s)
      then (None, reconnect (s\<lparr>timers := take k (timers s) @ drop (Suc k) (timers s)\<rparr>))
      else (None, s))"
| "step (Boards_reply n r) s =
     (case map_of (pending s) n of
        Some LoadBoard_boards \<Rightarrow> (None, loadBoard_boards r (settle n s))
      | other \<Rightarrow> (None, s))"
| "step (Board_reply n r) s =
     (case map_of (pending s) n of
        Some LoadBoard_board \<Rightarrow> (None, loadBoard_board r (settle n s))
      | other \<Rightarrow> (None, s))"
| "step (Comments_reply n r) s =
     (case map_of (pending s) n of
        Some (LoadComments_get k) \<Rightarrow> (None, loadComments_get k r (settle n s))
      | other \<Rightarrow> (None, s))"
| "step (Write_reply n r) s =
     (case map_of (pending s) n of
        Some CreateCard_post \<Rightarrow> (None, createCard_post r (settle n s))
      | Some UpdateCard_put \<Rightarrow> (None, updateCard_put r (settle n s))
      | Some DeleteCard_delete \<Rightarrow> (None, deleteCard_delete r (settle n s))
      | Some OnDragEnd_post \<Rightarrow> (None, onDragEnd_post r (settle n s))
      | Some (AddComment_post k cardId) \<Rightarrow> (None, addComment_post k cardId r (settle n s))
      | other \<Rightarrow> (None, s))"
| "step (Add_card columnId answer) s = (None, createCard columnId answer s)"
| "step (Drag_end result) s = (None, onDragEnd result s)"
| "step (Click_card c) s = (None, openCardModal c s)"
| "step Close_modal s = (None, onClose s)"
| "step (Edit_title t) s =
     (None, with_modal (\<lambda>c m. set_modal (modal_instance m) (\<lambda>m. m\<lparr>modal_title := t\<rparr>)) s)"
| "step (Edit_description t) s =
     (None, with_modal (\<lambda>c m.
        set_modal (modal_instance m) (\<lambda>m. m\<lparr>modal_description := Some t\<rparr>)) s)"
| "step (Edit_priority t) s =
     (None, with_modal (\<lambda>c m. set_modal (modal_instance m) (\<lambda>m. m\<lparr>modal_priority := t\<rparr>)) s)"
| "step (Edit_comment t) s = (None, with_modal (\<lambda>c m. setNewComment (modal_instance m) t) s)"
| "step Post_comment s = (None, with_modal addComment s)"
| "step Save s = (None, with_modal handleSave s)"
| "step (Delete confirmed) s = (None, with_modal (\<lambda>c m. deleteCard (card_id c) confirmed) s)"
| "step (Search t) s = (None, s\<lparr>searchQuery := t\<rparr>)"

definition dispatch :: "event \<Rightarrow> app \<Rightarrow> exn option \<times> app" where
  "dispatch e s = (let (x, s1) = step e s in (x, render s1))"

text \<open>An exception that leaves a handler ends that turn only; the loop goes on.\<close>

fun run :: "event list \<Rightarrow> app \<Rightarrow> app" where
  "run [] s = s"
| "run (e # es) s = run es (snd (dispatch e s))"

subsection \<open>Mounting the page (lines 12-60)\<close>

definition initial :: app where
  "initial =
     \<lparr>board = None, ws = None, username = [], showCardModal = False, selectedCard = None,
      searchQuery = [], modal = None, mounts = 0, sockets = [], timers = [], requests = [],
      pending = [], console = []\<rparr>"

text \<open>
  The two effects, in order: the first creates the socket, assigns its four handlers and
  stores it; the second calls \<^verbatim>\<open>loadBoard\<close> and sets the user name, where \<open>guest\<close> is the
  decimal text of \<^verbatim>\<open>Math.floor(Math.random() * 1000)\<close>. The cleanup of the first effect
  (lines 47-51) runs when the page is unmounted, where a run ends.
\<close>

definition mount :: "string \<Rightarrow> app" where
  "mount guest =
     (let (i, s1) = new_WebSocket initial;
          s2 = s1\<lparr>sockets := (sockets s1)[i := (sockets s1 ! i)\<lparr>has_onopen := True,
                   has_onmessage := True, has_onerror := True, has_onclose := True\<rparr>]\<rparr>;
          s3 = s2\<lparr>ws := Some i\<rparr>;
          s4 = loadBoard s3
      in s4\<lparr>username := ''Guest_'' @ guest\<rparr>)"

section \<open>What is observed of a run\<close>

text \<open>
  A full snapshot pull is a call of \<^const>\<open>loadBoard\<close>, and each call starts with the
  request for the list of boards: the pulls started so far are counted by these requests.
\<close>

definition pulls :: "app \<Rightarrow> nat" where
  "pulls s = length (filter (\<lambda>r. r = GET_boards) (requests s))"

text \<open>A pull is in flight while \<^const>\<open>loadBoard\<close> is suspended on one of its two requests.\<close>

definition pull_in_flight :: "app \<Rightarrow> bool" where
  "pull_in_flight s =
     list_ex (\<lambda>p. snd p = LoadBoard_boards \<or> snd p = LoadBoard_board) (pending s)"

text \<open>The socket numbered \<open>i\<close> exists and carries the message handler.\<close>

definition listening :: "app \<Rightarrow> nat \<Rightarrow> bool" where
  "listening s i = (i < length (sockets s) \<and> has_onmessage (sockets s ! i))"

text \<open>A wire message that decodes to a value whose \<^verbatim>\<open>type\<close> is one of the six kinds.\<close>

fun recognized :: "wire \<Rightarrow> bool" where
  "recognized (NotJSON t) = False"
| "recognized (JSONText v) = (case message_type v of Inl e \<Rightarrow> False | Inr t \<Rightarrow> change_event t)"

text \<open>The event is a recognized change event on a socket that listens.\<close>

fun delivered_change :: "app \<Rightarrow> event \<Rightarrow> bool" where
  "delivered_change s (Message i data) = (listening s i \<and> recognized data)"
| "delivered_change s e = False"

text \<open>The event is the reply to the request numbered \<open>n\<close>.\<close>

fun reply_to :: "nat \<Rightarrow> event \<Rightarrow> bool" where
  "reply_to n (Boards_reply m r) = (m = n)"
| "reply_to n (Board_reply m r) = (m = n)"
| "reply_to n (Comments_reply m r) = (m = n)"
| "reply_to n (Write_reply m r) = (m = n)"
| "reply_to n e = False"

text \<open>The hooks of the page and of its modal: everything but the environment.\<close>

definition page_state ::
  "app \<Rightarrow> board option \<times> nat option \<times> string \<times> bool \<times> card option \<times> string \<times> card_modal option"
where
  "page_state s =
     (board s, ws s, username s, showCardModal s, selectedCard s, searchQuery s, modal s)"

subsection \<open>A board and a session to run the page on\<close>

definition card_moved :: wire where
  "card_moved = JSONText (Object [(''type'', String ''card_moved'')])"

definition fix_bug :: card where
  "fix_bug =
     \<lparr>card_id = ''c1'', card_column_id = ''Todo'', card_title = ''Fix bug'',
      card_description = None, card_priority = ''medium'', card_labels = [],
      card_assigned_to = Some ''Guest_7''\<rparr>"

definition todo_board :: board where
  "todo_board =
     \<lparr>board_id = ''b1'', board_name = ''Sprint'',
      board_columns =
        [\<lparr>col_id = ''Todo'', col_name = ''Todo'', col_cards = [fix_bug]\<rparr>,
         \<lparr>col_id = ''Doing'', col_name = ''Doing'', col_cards = []\<rparr>,
         \<lparr>col_id = ''Done'', col_name = ''Done'', col_cards = []\<rparr>]\<rparr>"

text \<open>The page after its socket has opened and its first load has completed.\<close>

definition loaded_page :: app where
  "loaded_page =
     run [Open 0, Boards_reply 0 (Resolved (Some [\<lparr>summary_id = ''b1''\<rparr>])),
          Board_reply 1 (Resolved (Some todo_board))]
       (mount ''7'')"

text \<open>The same page with the modal of the card open and its comments loaded (none).\<close>

definition editing_page :: app where
  "editing_page = run [Click_card fix_bug, Comments_reply 2 (Resolved (Some []))] loaded_page"

text \<open>The modal of that card with \<open>t\<close> typed in the comment box.\<close>

definition draft :: "code_unit list \<Rightarrow> card_modal" where
  "draft t =
     \<lparr>modal_instance = 0, effect_card_id = ''c1'', modal_title = ''Fix bug'',
      modal_description = None, modal_priority = ''medium'', comments = [], newComment = t\<rparr>"

text \<open>The text \<^verbatim>\<open>hi\<close>, and the editing page with it typed in the comment box.\<close>

definition hi :: "code_unit list" where
  "hi = [104, 105]"

definition typed_page :: app where
  "typed_page = run [Edit_comment hi] editing_page"

subsection \<open>Cards of a snapshot, requests of a state\<close>

text \<open>The cards of a board, column by column.\<close>

definition cards_of :: "board \<Rightarrow> card list" where
  "cards_of b = concat (map col_cards (board_columns b))"

text \<open>Every suspended function waits for a request that has been sent.\<close>

definition numbered :: "app \<Rightarrow> bool" where
  "numbered s = list_all (\<lambda>p. fst p < length (requests s)) (pending s)"

section \<open>Pulls and change events\<close>

lemmas page_defs =
  Let_def set_readyState_def onopen_def onclose_def onerror_def onmessage_def
  handleWebSocketMessage_def loadBoard_def send_def console_log_def reconnect_def
  new_WebSocket_def settle_def loadBoard_boards_def loadBoard_board_def loadComments_get_def
  setComments_def set_modal_def createCard_post_def updateCard_put_def deleteCard_delete_def
  onDragEnd_post_def addComment_post_def loadComments_def setNewComment_def createCard_def
  onDragEnd_def openCardModal_def onClose_def with_modal_def addComment_def handleSave_def
  updateCard_def deleteCard_def

text \<open>Rendering sends no request for the list of boards and touches no socket.\<close>

lemma pulls_render: "pulls (render s) = pulls s"
  by (simp add: render_def pulls_def loadComments_def send_def split: option.split bool.split)

lemma sockets_render: "sockets (render s) = sockets s"
  by (simp add: render_def loadComments_def send_def split: option.split bool.split)

lemma listening_render: "listening (render s) i = listening s i"
  by (simp add: listening_def sockets_render)

lemma pulls_onmessage:
  "pulls (snd (onmessage data s)) = pulls s + (if recognized data then 1 else 0)"
  by (cases data)
    (simp_all add: pulls_def onmessage_def handleWebSocketMessage_def loadBoard_def send_def
       console_log_def Let_def split: sum.split)

lemma sockets_onmessage: "sockets (snd (onmessage data s)) = sockets s"
  by (cases data)
    (simp_all add: onmessage_def handleWebSocketMessage_def loadBoard_def send_def
       console_log_def Let_def split: sum.split)

text \<open>One turn starts one pull when it delivers a change event, and none otherwise.\<close>

lemma pulls_step: "pulls (snd (step e s)) = pulls s + (if delivered_change s e then 1 else 0)"
proof (cases e)
  case (Message i data)
  then show ?thesis by (simp add: pulls_onmessage listening_def)
qed (auto simp: pulls_def page_defs
     split: sum.splits option.splits awaiting.splits reply.splits if_splits)

text \<open>
  The sockets that listen stay the same ones: a socket keeps its handlers when its ready
  state changes, and the socket the timer creates has none.
\<close>

lemma listening_step: "listening (snd (step e s)) i = listening s i"
proof (cases e)
  case (Message j data)
  then show ?thesis by (simp add: sockets_onmessage listening_def)
qed (auto simp: listening_def page_defs nth_append nth_list_update
     split: sum.splits option.splits awaiting.splits reply.splits if_splits)

lemma pulls_dispatch:
  "pulls (snd (dispatch e s)) = pulls s + (if delivered_change s e then 1 else 0)"
  using pulls_step [of e s] by (simp add: dispatch_def split_beta pulls_render)

lemma listening_dispatch: "listening (snd (dispatch e s)) i = listening s i"
  by (simp add: dispatch_def split_beta listening_render listening_step)

lemma delivered_change_dispatch:
  "delivered_change (snd (dispatch e s)) e' = delivered_change s e'"
  by (cases e') (simp_all add: listening_dispatch)

text \<open>
  C1, as the spec states it, fails on the page: on the loaded page no pull is in flight;
  a first \<^verbatim>\<open>card_moved\<close> message starts one, and a second message, delivered while that
  pull is still in flight, starts another.
\<close>

theorem C1_second_pull_behind_in_flight:
  "\<not> pull_in_flight loaded_page \<and>
   pull_in_flight (run [Message 0 card_moved] loaded_page) \<and>
   delivered_change (run [Message 0 card_moved] loaded_page) (Message 0 card_moved) \<and>
   pulls (run [Message 0 card_moved] loaded_page) = pulls loaded_page + 1 \<and>
   pulls (run [Message 0 card_moved, Message 0 card_moved] loaded_page) = pulls loaded_page + 2"
  by code_simp

text \<open>
  C1 (amended): the page has no reloading state and coalesces nothing. Over every
  sequence of events, from every state, the number of pulls started equals the number of
  recognized change events delivered to a listening socket, whether or not a pull is in
  flight when they arrive.
\<close>

theorem C1_every_change_event_pulls:
  "pulls (run es s) = pulls s + length (filter (delivered_change s) es)"
proof (induction es arbitrary: s)
  case Nil
  show ?case by simp
next
  case (Cons e es)
  have same: "filter (delivered_change (snd (dispatch e s))) es = filter (delivered_change s) es"
    by (rule filter_cong) (simp_all add: delivered_change_dispatch)
  show ?case
    by (simp add: Cons.IH same pulls_dispatch)
qed

section \<open>Disconnect and reconnect\<close>

lemma timers_render: "timers (render s) = timers s"
  by (simp add: render_def loadComments_def send_def split: option.split bool.split)

lemma ws_render: "ws (render s) = ws s"
  by (simp add: render_def loadComments_def send_def split: option.split bool.split)

lemma board_render: "board (render s) = board s"
  by (simp add: render_def loadComments_def send_def split: option.split bool.split)

text \<open>
  C2, as the spec states it, fails on the page: the socket of the loaded page closes, the
  timer fires, the new socket opens and is the one stored, and no pull has been started.
\<close>

theorem C2_reopen_without_pull:
  "ws (run [Close 0, Timeout 0, Open 1] loaded_page) = Some 1 \<and>
   readyState (sockets (run [Close 0, Timeout 0, Open 1] loaded_page) ! 1) = OPEN \<and>
   pulls (run [Close 0, Timeout 0, Open 1] loaded_page) = pulls loaded_page"
  by code_simp

text \<open>
  C2 (amended): when a socket that carries the close handler disconnects, one timer of
  3000 milliseconds is started; when it fires a new socket is created and stored, and
  when that socket opens no snapshot pull is performed: the disconnect, the reconnect and
  the reopening start no pull at all.
\<close>

theorem C2_no_pull_on_reopen:
  assumes "i < length (sockets s)" and "has_onclose (sockets s ! i)"
  shows "timers (snd (dispatch (Close i) s)) = timers s @ [3000] \<and>
         ws (run [Close i, Timeout (length (timers s)), Open (length (sockets s))] s)
           = Some (length (sockets s)) \<and>
         readyState (sockets (run [Close i, Timeout (length (timers s)), Open (length (sockets s))] s)
            ! length (sockets s)) = OPEN \<and>
         pulls (run [Close i, Timeout (length (timers s)), Open (length (sockets s))] s) = pulls s"
proof -
  let ?s1 = "snd (dispatch (Close i) s)"
  let ?s2 = "snd (dispatch (Timeout (length (timers s))) ?s1)"
  let ?s3 = "snd (dispatch (Open (length (sockets s))) ?s2)"
  have t1: "timers ?s1 = timers s @ [3000]"
    using assms by (simp add: dispatch_def timers_render page_defs)
  have k1: "length (sockets ?s1) = length (sockets s)"
    using assms by (simp add: dispatch_def sockets_render page_defs)
  have k2: "length (sockets ?s2) = Suc (length (sockets s))"
    using t1 k1 by (simp add: dispatch_def sockets_render page_defs)
  have w2: "ws ?s2 = Some (length (sockets s))"
    using t1 k1 by (simp add: dispatch_def ws_render page_defs)
  have w3: "ws ?s3 = Some (length (sockets s))"
    using w2 k2 by (simp add: dispatch_def ws_render page_defs)
  have r3: "readyState (sockets ?s3 ! length (sockets s)) = OPEN"
    using k2 by (simp add: dispatch_def sockets_render page_defs)
  have p: "pulls ?s3 = pulls s"
    by (simp add: pulls_dispatch)
  show ?thesis using t1 w3 r3 p by simp
qed

theorem C2_no_pull_on_reopen_witness:
  "timers (snd (dispatch (Close 0) loaded_page)) = [3000] \<and>
   ws (run [Close 0, Timeout 0, Open 1] loaded_page) = Some 1 \<and>
   pulls (run [Close 0, Timeout 0, Open 1] loaded_page) = 1"
proof -
  have a: "(0::nat) < length (sockets loaded_page)" by code_simp
  have b: "has_onclose (sockets loaded_page ! 0)" by code_simp
  have c: "length (sockets loaded_page) = 1" by code_simp
  have d: "timers loaded_page = []" by code_simp
  have e: "pulls loaded_page = 1" by code_simp
  show ?thesis using C2_no_pull_on_reopen [OF a b] by (simp add: c d e)
qed

text \<open>
  C3 names what the reconnected channel must do; on the page it does not. The close of
  the first socket starts the one timer of 3000 milliseconds. The socket the timer
  creates carries no handler: once open, a \<^verbatim>\<open>card_moved\<close> message on it changes nothing
  and starts no pull, and its own close starts no timer.
\<close>

theorem C3_reconnected_socket_is_deaf:
  "timers (run [Close 0] loaded_page) = [3000] \<and>
   sockets (run [Close 0, Timeout 0, Open 1] loaded_page) ! 1 =
     \<lparr>readyState = OPEN, has_onopen = False, has_onmessage = False, has_onerror = False,
      has_onclose = False\<rparr> \<and>
   run [Close 0, Timeout 0, Open 1, Message 1 card_moved] loaded_page =
     run [Close 0, Timeout 0, Open 1] loaded_page \<and>
   pulls (run [Close 0, Timeout 0, Open 1, Message 1 card_moved] loaded_page) = pulls loaded_page \<and>
   timers (run [Close 0, Timeout 0, Open 1, Close 1] loaded_page) = []"
  by code_simp

section \<open>Malformed wire messages\<close>

text \<open>
  C4, as the spec states it, fails on the page: text that is not JSON makes the message
  handler of the loaded page end with a \<^verbatim>\<open>SyntaxError\<close>, and nothing is logged.
\<close>

theorem C4_malformed_message_raises:
  "fst (dispatch (Message 0 (NotJSON ''{oops'')) loaded_page) = Some SyntaxError \<and>
   console (snd (dispatch (Message 0 (NotJSON ''{oops'')) loaded_page)) = console loaded_page"
  by code_simp

text \<open>
  C4 (amended): for every wire message that is not valid JSON, \<^verbatim>\<open>JSON.parse\<close> throws and
  the exception leaves the message handler uncaught; the message is dropped without a
  log line, that is, the state is left exactly as it was (no pull is started), so the
  next message is handled as usual.
\<close>

theorem C4_parse_error_propagates:
  "onmessage (NotJSON t) s = (Some SyntaxError, s) \<and>
   step (Message i (NotJSON t)) s = (if listening s i then Some SyntaxError else None, s)"
  by (simp add: onmessage_def listening_def)

section \<open>Moving a card\<close>

text \<open>Only the reply to the snapshot request of a pull changes the board.\<close>

lemma board_step:
  "board (snd (step e s)) = board s \<or>
   (\<exists>n data. e = Board_reply n (Resolved data) \<and> map_of (pending s) n = Some LoadBoard_board \<and>
      board (snd (step e s)) = data)"
  by (cases e)
    (auto simp: page_defs
      split: sum.splits option.splits awaiting.splits reply.splits if_splits)

text \<open>
  C5: the drag end leaves the snapshot, and every other hook of the page, as it was, both
  when the request is sent and when its reply comes, resolved or rejected. Over a whole
  turn of the event loop the board changes only when a pull's snapshot request resolves,
  and then to the body of that reply.
\<close>

theorem C5_move_leaves_snapshot:
  "page_state (onDragEnd result s) = page_state s \<and>
   page_state (onDragEnd_post r (onDragEnd result s)) = page_state s \<and>
   (board (snd (dispatch e s)) = board s \<or>
    (\<exists>n data. e = Board_reply n (Resolved data) \<and> map_of (pending s) n = Some LoadBoard_board \<and>
       board (snd (dispatch e s)) = data))"
proof -
  have a: "page_state (onDragEnd result s) = page_state s"
    by (simp add: page_state_def onDragEnd_def send_def split: option.split)
  have b: "page_state (onDragEnd_post r s') = page_state s'" for s'
    by (simp add: page_state_def onDragEnd_post_def console_log_def split: reply.split)
  have c: "board (snd (dispatch e s)) = board (snd (step e s))"
    by (simp add: dispatch_def split_beta board_render)
  show ?thesis using a b c board_step [of e s] by simp
qed

text \<open>
  C6: a drag end with a destination sends exactly one request, the move request whose
  body has the dragged card's id, the destination column's id and the destination index,
  and its reply sends nothing more; a drag end without destination does nothing at all.
\<close>

theorem C6_move_request:
  "requests (onDragEnd \<lparr>draggableId = cardId, source = src,
       destination = Some \<lparr>droppableId = columnId, index = k\<rparr>\<rparr> s)
     = requests s @ [POST_cards_move \<lparr>move_card_id = cardId, move_target_column_id = columnId,
                        move_position = k\<rparr>] \<and>
   requests (onDragEnd_post r s) = requests s \<and>
   onDragEnd \<lparr>draggableId = cardId, source = src, destination = None\<rparr> s = s"
  by (simp add: onDragEnd_def onDragEnd_post_def send_def console_log_def split: reply.split)

section \<open>Requests and their replies\<close>

text \<open>
  In a numbered state the request just sent is the one its sender waits for, and it
  stays so, whatever else happens, until the reply to that very request comes.
\<close>

lemma map_of_unsent:
  "list_all (\<lambda>p. fst p < (n::nat)) ps \<Longrightarrow> n \<le> m \<Longrightarrow> map_of ps m = None"
  by (induction ps) auto

lemma map_of_settled:
  "m \<noteq> n \<Longrightarrow> map_of (filter (\<lambda>p. fst p \<noteq> m) ps) n = map_of ps n"
  by (induction ps) auto

lemma pending_send:
  "numbered s \<Longrightarrow> map_of (pending (send r k s)) (length (requests s)) = Some k"
  by (simp add: numbered_def send_def map_of_unsent map_add_def)

lemma kept_render: "map_of (pending s) n = Some k \<Longrightarrow> map_of (pending (render s)) n = Some k"
  by (simp add: render_def loadComments_def send_def map_add_def split: option.split bool.split)

lemma kept_step:
  "map_of (pending s) n = Some k \<Longrightarrow> \<not> reply_to n e \<Longrightarrow>
   map_of (pending (snd (step e s))) n = Some k"
  by (cases e)
    (auto simp: page_defs map_of_settled map_add_def
      split: sum.splits option.splits awaiting.splits reply.splits if_splits wire.splits)

lemma kept_dispatch:
  "map_of (pending s) n = Some k \<Longrightarrow> \<not> reply_to n e \<Longrightarrow>
   map_of (pending (snd (dispatch e s))) n = Some k"
  by (simp add: dispatch_def split_beta kept_render kept_step)

lemma kept_run:
  "map_of (pending s) n = Some k \<Longrightarrow> \<not> list_ex (reply_to n) es \<Longrightarrow>
   map_of (pending (run es s)) n = Some k"
  by (induction es arbitrary: s) (simp_all add: kept_dispatch)

text \<open>Every state the page reaches from a numbered one, and so from its mount, is numbered.\<close>

lemma numbered_send: "numbered s \<Longrightarrow> numbered (send r k s)"
  by (auto simp: numbered_def send_def list_all_iff)

lemma numbered_settle: "numbered s \<Longrightarrow> numbered (settle n s)"
  by (auto simp: numbered_def settle_def list_all_iff)

lemma numbered_console_log: "numbered (console_log l s) = numbered s"
  by (simp add: numbered_def console_log_def)

lemma numbered_render: "numbered s \<Longrightarrow> numbered (render s)"
  by (auto simp: render_def loadComments_def numbered_def send_def list_all_iff
      split: option.splits bool.splits)

lemma numbered_step: "numbered s \<Longrightarrow> numbered (snd (step e s))"
  by (cases e)
    (auto simp: numbered_def list_all_iff page_defs
      split: sum.splits option.splits awaiting.splits reply.splits if_splits wire.splits)

lemma numbered_dispatch: "numbered s \<Longrightarrow> numbered (snd (dispatch e s))"
  by (simp add: dispatch_def split_beta numbered_render numbered_step)

lemma numbered_run: "numbered s \<Longrightarrow> numbered (run es s)"
  by (induction es arbitrary: s) (simp_all add: numbered_dispatch)

lemma numbered_mount: "numbered (mount guest)"
  by (simp add: numbered_def mount_def initial_def new_WebSocket_def loadBoard_def send_def)

section \<open>Comments\<close>

text \<open>The trimmed text is empty exactly when every code unit of the text is white space.\<close>

lemma trim_empty: "(trim t = []) = list_all isWhiteSpace t"
proof -
  have "(trim t = []) = (\<forall>c\<in>set (dropWhile isWhiteSpace t). isWhiteSpace c)"
    by (simp add: trim_def dropWhile_eq_Nil_conv)
  also have "\<dots> = (dropWhile isWhiteSpace t = [])"
  proof
    assume all: "\<forall>c\<in>set (dropWhile isWhiteSpace t). isWhiteSpace c"
    show "dropWhile isWhiteSpace t = []"
    proof (rule ccontr)
      assume ne: "dropWhile isWhiteSpace t \<noteq> []"
      then have "\<not> isWhiteSpace (hd (dropWhile isWhiteSpace t))" by (rule hd_dropWhile)
      moreover have "hd (dropWhile isWhiteSpace t) \<in> set (dropWhile isWhiteSpace t)"
        using ne by simp
      ultimately show False using all by blast
    qed
  next
    assume e: "dropWhile isWhiteSpace t = []"
    show "\<forall>c\<in>set (dropWhile isWhiteSpace t). isWhiteSpace c"
      unfolding e by simp
  qed
  also have "\<dots> = list_all isWhiteSpace t"
    by (simp add: dropWhile_eq_Nil_conv list_all_iff)
  finally show ?thesis .
qed

lemma numbered_set_modal: "numbered (set_modal k f s) = numbered s"
  by (simp add: numbered_def set_modal_def split: option.split)

text \<open>
  C7: for a text that is empty or all white space \<^verbatim>\<open>addComment\<close> changes nothing: no
  request is sent and the comment list is the one before. For every other text it sends
  one create-comment request with the card's id, the user name and the text, and this is
  what the Post button does on the open modal. When the reply to that request comes
  resolved, whatever has happened in between, the comment list is requested again; and
  when the reply to that second request comes, the comments of the modal, if it is still
  the same instance, are the ones received. A rejected create request is only logged:
  no request follows and the hooks stay as they were.
\<close>

theorem C7_addComment:
  fixes s :: app and es1 es2 :: "event list" and c :: card and m :: card_modal and u :: unit
  defines "n \<equiv> length (requests s)"
  defines "t1 \<equiv> run es1 (addComment c m s)"
  defines "n2 \<equiv> length (requests t1)"
  defines "t2 \<equiv> run es2 (snd (dispatch (Write_reply n (Resolved u)) t1))"
  shows
  "addComment c m s =
     (if list_all isWhiteSpace (newComment m) then s
      else s\<lparr>requests := requests s @
                [POST_comments \<lparr>post_card_id = card_id c, post_author = username s,
                   post_text = newComment m\<rparr>],
             pending := pending s @
                [(length (requests s), AddComment_post (modal_instance m) (card_id c))]\<rparr>) \<and>
   requests (addComment_post k cardId (Resolved u) s) = requests s @ [GET_comments cardId] \<and>
   requests (addComment_post k cardId Rejected s) = requests s \<and>
   page_state (addComment_post k cardId Rejected s) = page_state s \<and>
   (selectedCard s = Some c \<and> modal s = Some m \<longrightarrow>
      step Post_comment s = (None, addComment c m s)) \<and>
   (map_of (pending t) j = Some (AddComment_post k cardId) \<longrightarrow>
      requests (snd (step (Write_reply j (Resolved u)) t)) = requests t @ [GET_comments cardId] \<and>
      requests (snd (step (Write_reply j Rejected) t)) = requests t \<and>
      page_state (snd (step (Write_reply j Rejected) t)) = page_state t) \<and>
   (map_of (pending t') j' = Some (LoadComments_get k') \<and> modal t' = Some m' \<and>
    modal_instance m' = k' \<longrightarrow>
      modal (snd (step (Comments_reply j' (Resolved (Some cs))) t')) =
        Some (m'\<lparr>comments := cs\<rparr>)) \<and>
   (numbered s \<and> \<not> list_all isWhiteSpace (newComment m) \<and> \<not> list_ex (reply_to n) es1 \<and>
    \<not> list_ex (reply_to n2) es2 \<and> modal t2 = Some m2 \<and> modal_instance m2 = modal_instance m \<longrightarrow>
      requests (snd (step (Write_reply n (Resolved u)) t1)) =
        requests t1 @ [GET_comments (card_id c)] \<and>
      modal (snd (step (Comments_reply n2 (Resolved (Some cs))) t2)) =
        Some (m2\<lparr>comments := cs\<rparr>))"
proof -
  have old: "addComment c m s =
     (if list_all isWhiteSpace (newComment m) then s
      else s\<lparr>requests := requests s @
                [POST_comments \<lparr>post_card_id = card_id c, post_author = username s,
                   post_text = newComment m\<rparr>],
             pending := pending s @
                [(length (requests s), AddComment_post (modal_instance m) (card_id c))]\<rparr>) \<and>
   requests (addComment_post k cardId (Resolved u) s) = requests s @ [GET_comments cardId] \<and>
   requests (addComment_post k cardId Rejected s) = requests s \<and>
   page_state (addComment_post k cardId Rejected s) = page_state s"
    by (simp add: addComment_def trim_empty send_def addComment_post_def loadComments_def
      setNewComment_def set_modal_def console_log_def page_state_def split: option.split)
  have click: "selectedCard s = Some c \<and> modal s = Some m \<longrightarrow>
      step Post_comment s = (None, addComment c m s)"
    by (simp add: with_modal_def)
  have post: "requests (snd (step (Write_reply j (Resolved u)) t)) = requests t @ [GET_comments cid] \<and>
      requests (snd (step (Write_reply j Rejected) t)) = requests t \<and>
      page_state (snd (step (Write_reply j Rejected) t)) = page_state t"
    if "map_of (pending t) j = Some (AddComment_post i cid)" for t j i cid
    using that
    by (simp add: addComment_post_def loadComments_def send_def setNewComment_def set_modal_def
        settle_def console_log_def page_state_def split: option.split)
  have get: "modal (snd (step (Comments_reply j (Resolved (Some cs))) t)) = Some (m'\<lparr>comments := cs\<rparr>)"
    if "map_of (pending t) j = Some (LoadComments_get i)" "modal t = Some m'" "modal_instance m' = i"
    for t j i m'
    using that
    by (simp add: loadComments_get_def setComments_def set_modal_def settle_def)
  have whole: "requests (snd (step (Write_reply n (Resolved u)) t1)) =
        requests t1 @ [GET_comments (card_id c)] \<and>
      modal (snd (step (Comments_reply n2 (Resolved (Some cs))) t2)) =
        Some (m2\<lparr>comments := cs\<rparr>)"
    if num: "numbered s" and nonblank: "\<not> list_all isWhiteSpace (newComment m)"
      and quiet1: "\<not> list_ex (reply_to n) es1" and quiet2: "\<not> list_ex (reply_to n2) es2"
      and open2: "modal t2 = Some m2" and same: "modal_instance m2 = modal_instance m"
  proof -
    let ?k = "AddComment_post (modal_instance m) (card_id c)"
    have "addComment c m s = send (POST_comments \<lparr>post_card_id = card_id c,
        post_author = username s, post_text = newComment m\<rparr>) ?k s"
      using nonblank by (simp add: addComment_def trim_empty)
    then have sent: "map_of (pending (addComment c m s)) n = Some ?k"
      and num0: "numbered (addComment c m s)"
      using num by (simp_all add: n_def pending_send numbered_send)
    have wait1: "map_of (pending t1) n = Some ?k"
      using sent quiet1 by (simp add: t1_def kept_run)
    have num1: "numbered (setNewComment (modal_instance m) [] (settle n t1))"
      using num0
      by (simp add: t1_def setNewComment_def numbered_set_modal numbered_settle numbered_run)
    have len: "length (requests (setNewComment (modal_instance m) [] (settle n t1))) = n2"
      by (simp add: n2_def setNewComment_def set_modal_def settle_def split: option.split)
    have step1: "step (Write_reply n (Resolved u)) t1 =
        (None, loadComments (modal_instance m) (card_id c)
           (setNewComment (modal_instance m) [] (settle n t1)))"
      using wait1 by (simp add: addComment_post_def)
    have "map_of (pending (loadComments (modal_instance m) (card_id c)
          (setNewComment (modal_instance m) [] (settle n t1)))) n2 =
        Some (LoadComments_get (modal_instance m))"
      using pending_send [OF num1] by (simp add: loadComments_def len)
    then have "map_of (pending (snd (step (Write_reply n (Resolved u)) t1))) n2 =
        Some (LoadComments_get (modal_instance m))"
      by (simp only: step1 snd_conv)
    then have "map_of (pending (snd (dispatch (Write_reply n (Resolved u)) t1))) n2 =
        Some (LoadComments_get (modal_instance m))"
      by (simp add: dispatch_def split_beta kept_render del: step.simps)
    then have wait2: "map_of (pending t2) n2 = Some (LoadComments_get (modal_instance m))"
      using quiet2 by (simp add: t2_def kept_run del: step.simps)
    show ?thesis
      using post [OF wait1] get [OF wait2 open2 same] by simp
  qed
  show ?thesis
    using old click post [of t j k cardId] get [of t' j' k' m'] whole by blast
qed

theorem C7_addComment_witness:
  "addComment fix_bug (draft []) typed_page = typed_page \<and>
   addComment fix_bug (draft [32, 160, 12288, 65279]) typed_page = typed_page \<and>
   step Post_comment typed_page = (None, addComment fix_bug (draft hi) typed_page) \<and>
   requests (addComment fix_bug (draft hi) typed_page) =
     requests typed_page @
       [POST_comments \<lparr>post_card_id = ''c1'', post_author = ''Guest_7'', post_text = hi\<rparr>] \<and>
   requests (snd (step (Write_reply (length (requests typed_page)) (Resolved ()))
       (run [Message 0 card_moved] (addComment fix_bug (draft hi) typed_page)))) =
     requests (run [Message 0 card_moved] (addComment fix_bug (draft hi) typed_page)) @
       [GET_comments ''c1''] \<and>
   modal (snd (step (Comments_reply
         (length (requests (run [Message 0 card_moved] (addComment fix_bug (draft hi) typed_page))))
         (Resolved (Some [])))
       (run [] (snd (dispatch (Write_reply (length (requests typed_page)) (Resolved ()))
          (run [Message 0 card_moved] (addComment fix_bug (draft hi) typed_page))))))) =
     Some ((draft [])\<lparr>comments := []\<rparr>) \<and>
   map_of (pending (addComment fix_bug (draft hi) typed_page)) 3 =
     Some (AddComment_post 0 ''c1'') \<and>
   requests (snd (step (Write_reply 3 Rejected) (addComment fix_bug (draft hi) typed_page))) =
     requests (addComment fix_bug (draft hi) typed_page) \<and>
   map_of (pending (snd (step (Write_reply 3 (Resolved ()))
       (addComment fix_bug (draft hi) typed_page)))) 4 = Some (LoadComments_get 0) \<and>
   modal (snd (step (Comments_reply 4 (Resolved (Some [])))
       (snd (step (Write_reply 3 (Resolved ())) (addComment fix_bug (draft hi) typed_page))))) =
     Some ((draft [])\<lparr>comments := []\<rparr>)"
proof -
  note inst = C7_addComment [where s = typed_page and c = fix_bug and u = "()"
      and ?es1.0 = "[Message 0 card_moved]" and ?es2.0 = "[]" and ?m2.0 = "draft []"
      and cs = "[]"]
  have blank: "list_all isWhiteSpace (newComment (draft []))"
    "list_all isWhiteSpace (newComment (draft [32, 160, 12288, 65279]))"
    by (simp_all add: draft_def isWhiteSpace_def)
  have nonblank: "\<not> list_all isWhiteSpace (newComment (draft hi))"
    by (simp add: draft_def hi_def isWhiteSpace_def)
  have modal_open: "selectedCard typed_page = Some fix_bug \<and> modal typed_page = Some (draft hi)"
    by code_simp
  have numbered: "numbered typed_page" by code_simp
  have quiet1: "\<not> list_ex (reply_to (length (requests typed_page))) [Message 0 card_moved]"
    by simp
  have quiet2: "\<not> list_ex (reply_to (length (requests
      (run [Message 0 card_moved] (addComment fix_bug (draft hi) typed_page))))) []"
    by simp
  have still: "modal (run [] (snd (dispatch (Write_reply (length (requests typed_page)) (Resolved ()))
          (run [Message 0 card_moved] (addComment fix_bug (draft hi) typed_page))))) =
       Some (draft [])"
    by code_simp
  have same: "modal_instance (draft []) = modal_instance (draft hi)"
    by (simp add: draft_def)
  have name: "username typed_page = ''Guest_7''" by code_simp
  have a: "addComment fix_bug (draft []) typed_page = typed_page"
    using inst [where m = "draft []"] blank(1) by simp
  have b: "addComment fix_bug (draft [32, 160, 12288, 65279]) typed_page = typed_page"
    using inst [where m = "draft [32, 160, 12288, 65279]"] blank(2) by simp
  have c: "step Post_comment typed_page = (None, addComment fix_bug (draft hi) typed_page)"
    using inst [where m = "draft hi"] modal_open by blast
  have d: "requests (addComment fix_bug (draft hi) typed_page) =
     requests typed_page @
       [POST_comments \<lparr>post_card_id = ''c1'', post_author = ''Guest_7'', post_text = hi\<rparr>]"
    using inst [where m = "draft hi"] nonblank
    by (simp add: name fix_bug_def) (simp add: draft_def)
  have e: "requests (snd (step (Write_reply (length (requests typed_page)) (Resolved ()))
       (run [Message 0 card_moved] (addComment fix_bug (draft hi) typed_page)))) =
     requests (run [Message 0 card_moved] (addComment fix_bug (draft hi) typed_page)) @
       [GET_comments (card_id fix_bug)] \<and>
   modal (snd (step (Comments_reply
         (length (requests (run [Message 0 card_moved] (addComment fix_bug (draft hi) typed_page))))
         (Resolved (Some [])))
       (run [] (snd (dispatch (Write_reply (length (requests typed_page)) (Resolved ()))
          (run [Message 0 card_moved] (addComment fix_bug (draft hi) typed_page))))))) =
     Some ((draft [])\<lparr>comments := []\<rparr>)"
    using inst [where m = "draft hi"] numbered nonblank quiet1 quiet2 still same by blast
  have id: "card_id fix_bug = ''c1''" by (simp add: fix_bug_def)
  have waits: "map_of (pending (addComment fix_bug (draft hi) typed_page)) 3 =
     Some (AddComment_post 0 ''c1'')"
    by code_simp
  have f: "requests (snd (step (Write_reply 3 Rejected) (addComment fix_bug (draft hi) typed_page))) =
     requests (addComment fix_bug (draft hi) typed_page)"
    using inst [where m = "draft hi" and t = "addComment fix_bug (draft hi) typed_page"
        and j = 3 and k = 0 and cardId = "''c1''"] waits
    by blast
  have waits2: "map_of (pending (snd (step (Write_reply 3 (Resolved ()))
       (addComment fix_bug (draft hi) typed_page)))) 4 = Some (LoadComments_get 0)"
    by code_simp
  have mounted: "modal (snd (step (Write_reply 3 (Resolved ()))
       (addComment fix_bug (draft hi) typed_page))) = Some (draft [])"
    "modal_instance (draft []) = 0"
    by code_simp+
  have g: "modal (snd (step (Comments_reply 4 (Resolved (Some [])))
       (snd (step (Write_reply 3 (Resolved ())) (addComment fix_bug (draft hi) typed_page))))) =
     Some ((draft [])\<lparr>comments := []\<rparr>)"
    using inst [where m = "draft hi" and j' = 4 and k' = 0 and m' = "draft []"
        and t' = "snd (step (Write_reply 3 (Resolved ())) (addComment fix_bug (draft hi) typed_page))"]
      waits2 mounted
    by blast
  show ?thesis
    using a b c d e waits f waits2 g unfolding id by blast
qed

section \<open>Saving a card\<close>

lemma find_app:
  "find P (xs @ ys) = (case find P xs of None \<Rightarrow> find P ys | Some x \<Rightarrow> Some x)"
  by (induction xs) simp_all

text \<open>\<^verbatim>\<open>findCard\<close> gives the first card with the id, in the order of the board.\<close>

lemma findCard_columns_find:
  "findCard_columns columns cardId =
     find (\<lambda>c. card_id c = cardId) (concat (map col_cards columns))"
  by (induction columns) (simp_all add: find_app split: option.split)

lemma findCard_find:
  "findCard (Some b) cardId = Inr (find (\<lambda>c. card_id c = cardId) (cards_of b))"
  by (simp add: findCard_def cards_of_def findCard_columns_find)

lemma render_closed: "\<not> showCardModal s \<Longrightarrow> modal (render s) = None"
  by (simp add: render_def split: option.split)

text \<open>
  C8: when \<open>c\<close> is the card of the current snapshot with the id \<open>cardId\<close>, saving sends
  one update request for that id whose body is \<open>c\<close> with the title, the description and
  the priority replaced by the overrides and every other field as it is, and changes no
  hook; \<^verbatim>\<open>handleSave\<close>, which the Save button of the open modal calls, is that call with
  the three fields of the modal. When the reply to that request comes resolved, whatever
  has happened in between, the modal is closed; when it comes rejected, the hooks stay
  as they were.
\<close>

theorem C8_save:
  fixes s :: app and es :: "event list" and cardId :: string and updates :: card_updates
  defines "n \<equiv> length (requests s)"
  defines "t1 \<equiv> run es (updateCard cardId updates s)"
  assumes "board s = Some b" and "find (\<lambda>c. card_id c = cardId) (cards_of b) = Some c"
  shows "requests (updateCard cardId updates s) =
           requests s @ [PUT_card cardId
              (c\<lparr>card_title := upd_title updates, card_description := upd_description updates,
                 card_priority := upd_priority updates\<rparr>)] \<and>
         pending (updateCard cardId updates s) = pending s @ [(n, UpdateCard_put)] \<and>
         page_state (updateCard cardId updates s) = page_state s \<and>
         handleSave c' m s =
           updateCard (card_id c')
             \<lparr>upd_title = modal_title m, upd_description = modal_description m,
              upd_priority = modal_priority m\<rparr> s \<and>
         showCardModal (updateCard_put (Resolved u) s') = False \<and>
         selectedCard (updateCard_put (Resolved u) s') = None \<and>
         modal (render (updateCard_put (Resolved u) s')) = None \<and>
         page_state (updateCard_put Rejected s') = page_state s' \<and>
         (selectedCard s = Some c' \<and> modal s = Some m \<longrightarrow>
            step Save s = (None, handleSave c' m s)) \<and>
         (map_of (pending t) k = Some UpdateCard_put \<longrightarrow>
            showCardModal (snd (step (Write_reply k (Resolved u)) t)) = False \<and>
            selectedCard (snd (step (Write_reply k (Resolved u)) t)) = None \<and>
            modal (snd (dispatch (Write_reply k (Resolved u)) t)) = None \<and>
            page_state (snd (step (Write_reply k Rejected) t)) = page_state t) \<and>
         (numbered s \<and> \<not> list_ex (reply_to n) es \<longrightarrow>
            showCardModal (snd (step (Write_reply n (Resolved u)) t1)) = False \<and>
            selectedCard (snd (step (Write_reply n (Resolved u)) t1)) = None \<and>
            modal (snd (dispatch (Write_reply n (Resolved u)) t1)) = None \<and>
            page_state (snd (step (Write_reply n Rejected) t1)) = page_state t1)"
proof -
  have old: "requests (updateCard cardId updates s) =
           requests s @ [PUT_card cardId
              (c\<lparr>card_title := upd_title updates, card_description := upd_description updates,
                 card_priority := upd_priority updates\<rparr>)] \<and>
         pending (updateCard cardId updates s) = pending s @ [(n, UpdateCard_put)] \<and>
         page_state (updateCard cardId updates s) = page_state s \<and>
         handleSave c' m s =
           updateCard (card_id c')
             \<lparr>upd_title = modal_title m, upd_description = modal_description m,
              upd_priority = modal_priority m\<rparr> s \<and>
         showCardModal (updateCard_put (Resolved u) s') = False \<and>
         selectedCard (updateCard_put (Resolved u) s') = None \<and>
         modal (render (updateCard_put (Resolved u) s')) = None \<and>
         page_state (updateCard_put Rejected s') = page_state s'"
    using assms(3,4)
    by (simp add: n_def updateCard_def findCard_find send_def page_state_def handleSave_def
        updateCard_put_def console_log_def render_closed)
  have save: "selectedCard s = Some c' \<and> modal s = Some m \<longrightarrow>
      step Save s = (None, handleSave c' m s)"
    by (simp add: with_modal_def)
  have reply: "showCardModal (snd (step (Write_reply k (Resolved u)) t)) = False \<and>
      selectedCard (snd (step (Write_reply k (Resolved u)) t)) = None \<and>
      modal (snd (dispatch (Write_reply k (Resolved u)) t)) = None \<and>
      page_state (snd (step (Write_reply k Rejected) t)) = page_state t"
    if "map_of (pending t) k = Some UpdateCard_put" for t k
    using that
    by (simp add: dispatch_def render_closed updateCard_put_def settle_def console_log_def
        page_state_def)
  have sent: "map_of (pending (updateCard cardId updates s)) n = Some UpdateCard_put"
    if "numbered s"
    using that assms(3,4)
    by (simp add: n_def updateCard_def findCard_find pending_send)
  have run: "map_of (pending t1) n = Some UpdateCard_put"
    if "numbered s" "\<not> list_ex (reply_to n) es"
    using that by (simp add: t1_def kept_run sent)
  show ?thesis
    using old save reply [of t k] reply [of t1 n] run by blast
qed

theorem C8_save_witness:
  "board editing_page = Some todo_board \<and>
   find (\<lambda>c. card_id c = ''c1'') (cards_of todo_board) = Some fix_bug \<and>
   requests (updateCard ''c1''
       \<lparr>upd_title = ''Fix it'', upd_description = Some ''soon'', upd_priority = ''high''\<rparr>
       editing_page) =
     requests editing_page @
       [PUT_card ''c1''
          \<lparr>card_id = ''c1'', card_column_id = ''Todo'', card_title = ''Fix it'',
           card_description = Some ''soon'', card_priority = ''high'', card_labels = [],
           card_assigned_to = Some ''Guest_7''\<rparr>] \<and>
   step Save editing_page = (None, handleSave fix_bug (draft []) editing_page) \<and>
   map_of (pending (handleSave fix_bug (draft []) editing_page)) 3 = Some UpdateCard_put \<and>
   page_state (snd (step (Write_reply 3 Rejected) (handleSave fix_bug (draft []) editing_page))) =
     page_state (handleSave fix_bug (draft []) editing_page) \<and>
   modal (snd (dispatch (Write_reply (length (requests editing_page)) (Resolved ()))
       (run [Message 0 card_moved] (updateCard ''c1''
          \<lparr>upd_title = ''Fix it'', upd_description = Some ''soon'', upd_priority = ''high''\<rparr>
          editing_page)))) = None"
proof -
  note inst = C8_save [where s = editing_page and b = todo_board and cardId = "''c1''"
      and c = fix_bug and es = "[Message 0 card_moved]" and c' = fix_bug and m = "draft []"
      and u = "()" and k = 3 and t = "handleSave fix_bug (draft []) editing_page"
      and updates =
        "\<lparr>upd_title = ''Fix it'', upd_description = Some ''soon'', upd_priority = ''high''\<rparr>"]
  have a: "board editing_page = Some todo_board" by code_simp
  have b: "find (\<lambda>c. card_id c = ''c1'') (cards_of todo_board) = Some fix_bug" by code_simp
  have modal_open: "selectedCard editing_page = Some fix_bug \<and> modal editing_page = Some (draft [])"
    by code_simp
  have waits: "map_of (pending (handleSave fix_bug (draft []) editing_page)) 3 = Some UpdateCard_put"
    by code_simp
  have quiet: "numbered editing_page \<and>
      \<not> list_ex (reply_to (length (requests editing_page))) [Message 0 card_moved]"
    by code_simp
  have put: "requests (updateCard ''c1''
       \<lparr>upd_title = ''Fix it'', upd_description = Some ''soon'', upd_priority = ''high''\<rparr>
       editing_page) =
     requests editing_page @
       [PUT_card ''c1''
          \<lparr>card_id = ''c1'', card_column_id = ''Todo'', card_title = ''Fix it'',
           card_description = Some ''soon'', card_priority = ''high'', card_labels = [],
           card_assigned_to = Some ''Guest_7''\<rparr>]"
    using inst [OF a b] by (simp add: fix_bug_def)
  have save: "step Save editing_page = (None, handleSave fix_bug (draft []) editing_page)"
    using inst [OF a b] modal_open by blast
  have rejected: "page_state (snd (step (Write_reply 3 Rejected)
        (handleSave fix_bug (draft []) editing_page))) =
     page_state (handleSave fix_bug (draft []) editing_page)"
    using inst [OF a b] waits by blast
  have closed: "modal (snd (dispatch (Write_reply (length (requests editing_page)) (Resolved ()))
       (run [Message 0 card_moved] (updateCard ''c1''
          \<lparr>upd_title = ''Fix it'', upd_description = Some ''soon'', upd_priority = ''high''\<rparr>
          editing_page)))) = None"
    using inst [OF a b] quiet by blast
  show ?thesis
    using a b put save waits rejected closed by blast
qed

section \<open>Failed requests\<close>



text \<open>
  Every \<^verbatim>\<open>catch\<close> block of the page logs one line and does nothing else; the body
  \<^verbatim>\<open>null\<close> of a list or comments reply ends there as well.
\<close>

lemma rejected:
  "loadBoard_boards Rejected s = console_log ''Error loading board:'' s"
  "loadBoard_board Rejected s = console_log ''Error loading board:'' s"
  "createCard_post Rejected s = console_log ''Error creating card:'' s"
  "updateCard_put Rejected s = console_log ''Error updating card:'' s"
  "deleteCard_delete Rejected s = console_log ''Error deleting card:'' s"
  "onDragEnd_post Rejected s = console_log ''Error moving card:'' s"
  "loadComments_get k Rejected s = console_log ''Error loading comments:'' s"
  "addComment_post k cardId Rejected s = console_log ''Error adding comment:'' s"
  "loadBoard_boards (Resolved None) s = console_log ''Error loading board:'' s"
  "loadComments_get k (Resolved None) s = console_log ''Error loading comments:'' s"
  by (simp_all add: loadBoard_boards_def loadBoard_board_def createCard_post_def
      updateCard_put_def deleteCard_delete_def onDragEnd_post_def loadComments_get_def
      addComment_post_def)






section \<open>Loading the board\<close>

lemma onmessage_recognized:
  "recognized data \<Longrightarrow>
   onmessage data s = (None, loadBoard (console_log ''WebSocket message:'' s))"
  by (cases data) (simp_all add: onmessage_def handleWebSocketMessage_def Let_def split: sum.splits)

lemma boards_reply:
  "step (Boards_reply m (Resolved (Some (b # bs)))) t =
     (None, if map_of (pending t) m = Some LoadBoard_boards
            then send (GET_board (summary_id b)) LoadBoard_board (settle m t) else t)"
  by (simp add: loadBoard_boards_def split: option.split awaiting.split)

lemma boards_reply_empty:
  "step (Boards_reply m (Resolved (Some []))) t =
     (None, if map_of (pending t) m = Some LoadBoard_boards then settle m t else t)"
  by (simp add: loadBoard_boards_def split: option.split awaiting.split)

lemma board_reply:
  "step (Board_reply m (Resolved data)) t =
     (None, if map_of (pending t) m = Some LoadBoard_board
            then (settle m t)\<lparr>board := data\<rparr> else t)"
  by (simp add: loadBoard_board_def split: option.split awaiting.split)

text \<open>
  C10: a recognized change event makes the message handler call \<^verbatim>\<open>loadBoard\<close>, as mounting
  the page does. A load asks for the list of boards. When the reply to that request
  comes with a first board, whatever has happened in between, the load asks for the
  snapshot of that board; when the reply to this second request comes, whatever has
  happened in between, its body becomes the snapshot. When the list comes back empty, no
  request is sent and no hook changes. Each reply resumes the load that waits for it,
  whether or not other requests were sent after it. So it is for the first load after
  mounting, where an empty list leaves the board not loaded.
\<close>

theorem C10_load_first_board:
  fixes s :: app and es1 es2 :: "event list"
  defines "n \<equiv> length (requests s)"
  defines "t1 \<equiv> run es1 (loadBoard s)"
  defines "n2 \<equiv> length (requests t1)"
  assumes "numbered s" and "recognized data"
  shows "onmessage data s = (None, loadBoard (console_log ''WebSocket message:'' s)) \<and>
     requests (loadBoard s) = requests s @ [GET_boards] \<and>
     step (Boards_reply m (Resolved (Some (b # bs)))) t =
       (None, if map_of (pending t) m = Some LoadBoard_boards
              then t\<lparr>requests := requests t @ [GET_board (summary_id b)],
                     pending := filter (\<lambda>p. fst p \<noteq> m) (pending t) @
                        [(length (requests t), LoadBoard_board)]\<rparr>
              else t) \<and>
     step (Board_reply m (Resolved (Some snapshot))) t =
       (None, if map_of (pending t) m = Some LoadBoard_board
              then t\<lparr>pending := filter (\<lambda>p. fst p \<noteq> m) (pending t), board := Some snapshot\<rparr>
              else t) \<and>
     step (Boards_reply m (Resolved (Some []))) t =
       (None, if map_of (pending t) m = Some LoadBoard_boards
              then t\<lparr>pending := filter (\<lambda>p. fst p \<noteq> m) (pending t)\<rparr>
              else t) \<and>
     (\<not> list_ex (reply_to n) es1 \<longrightarrow>
        requests (snd (step (Boards_reply n (Resolved (Some (b # bs)))) t1)) =
          requests t1 @ [GET_board (summary_id b)] \<and>
        requests (snd (step (Boards_reply n (Resolved (Some []))) t1)) = requests t1 \<and>
        page_state (snd (step (Boards_reply n (Resolved (Some []))) t1)) = page_state t1) \<and>
     (\<not> list_ex (reply_to n) es1 \<and> \<not> list_ex (reply_to n2) es2 \<longrightarrow>
        board (snd (step (Board_reply n2 (Resolved (Some snapshot)))
           (run es2 (snd (dispatch (Boards_reply n (Resolved (Some (b # bs)))) t1))))) =
          Some snapshot) \<and>
     requests (run [Boards_reply 0 (Resolved (Some (b # bs))),
        Board_reply 1 (Resolved (Some snapshot))] (mount guest)) =
       [GET_boards, GET_board (summary_id b)] \<and>
     board (run [Boards_reply 0 (Resolved (Some (b # bs))),
        Board_reply 1 (Resolved (Some snapshot))] (mount guest)) = Some snapshot \<and>
     requests (run [Boards_reply 0 (Resolved (Some []))] (mount guest)) = [GET_boards] \<and>
     board (run [Boards_reply 0 (Resolved (Some []))] (mount guest)) = None"
proof -
  let ?list = "Boards_reply n (Resolved (Some (b # bs)))"
  have a: "onmessage data s = (None, loadBoard (console_log ''WebSocket message:'' s))"
    using assms(5) by (rule onmessage_recognized)
  have b: "requests (loadBoard s) = requests s @ [GET_boards]"
    by (simp add: loadBoard_def send_def)
  have g: "step (Boards_reply m (Resolved (Some (b # bs)))) t =
       (None, if map_of (pending t) m = Some LoadBoard_boards
              then t\<lparr>requests := requests t @ [GET_board (summary_id b)],
                     pending := filter (\<lambda>p. fst p \<noteq> m) (pending t) @
                        [(length (requests t), LoadBoard_board)]\<rparr>
              else t)"
    by (simp add: boards_reply send_def settle_def del: step.simps)
  have h: "step (Board_reply m (Resolved (Some snapshot))) t =
       (None, if map_of (pending t) m = Some LoadBoard_board
              then t\<lparr>pending := filter (\<lambda>p. fst p \<noteq> m) (pending t), board := Some snapshot\<rparr>
              else t)"
    by (simp add: board_reply settle_def del: step.simps)
  have e: "step (Boards_reply m (Resolved (Some []))) t =
       (None, if map_of (pending t) m = Some LoadBoard_boards
              then t\<lparr>pending := filter (\<lambda>p. fst p \<noteq> m) (pending t)\<rparr>
              else t)"
    by (simp add: boards_reply_empty settle_def del: step.simps)
  have sent: "map_of (pending (loadBoard s)) n = Some LoadBoard_boards"
    using assms(4) by (simp add: n_def loadBoard_def pending_send)
  have num1: "numbered (settle n t1)"
    using assms(4) by (simp add: t1_def loadBoard_def numbered_send numbered_run numbered_settle)
  have first: "requests (snd (step ?list t1)) = requests t1 @ [GET_board (summary_id b)] \<and>
        requests (snd (step (Boards_reply n (Resolved (Some []))) t1)) = requests t1 \<and>
        page_state (snd (step (Boards_reply n (Resolved (Some []))) t1)) = page_state t1"
    if quiet1: "\<not> list_ex (reply_to n) es1"
  proof -
    have wait1: "map_of (pending t1) n = Some LoadBoard_boards"
      using sent quiet1 by (simp add: t1_def kept_run)
    show ?thesis
      using wait1
      by (simp add: boards_reply boards_reply_empty send_def settle_def page_state_def
          del: step.simps)
  qed
  have second: "board (snd (step (Board_reply n2 (Resolved (Some snapshot)))
        (run es2 (snd (dispatch ?list t1))))) = Some snapshot"
    if quiet1: "\<not> list_ex (reply_to n) es1" and quiet2: "\<not> list_ex (reply_to n2) es2"
  proof -
    have wait1: "map_of (pending t1) n = Some LoadBoard_boards"
      using sent quiet1 by (simp add: t1_def kept_run)
    have "map_of (pending (snd (step ?list t1))) n2 = Some LoadBoard_board"
      using wait1 pending_send [OF num1]
      by (simp add: boards_reply n2_def settle_def del: step.simps)
    then have "map_of (pending (snd (dispatch ?list t1))) n2 = Some LoadBoard_board"
      by (simp add: dispatch_def split_beta kept_render)
    then have wait2: "map_of (pending (run es2 (snd (dispatch ?list t1)))) n2 = Some LoadBoard_board"
      using quiet2 by (simp add: kept_run)
    show ?thesis
      using wait2 by (simp add: board_reply del: step.simps)
  qed
  have f1: "requests (run [Boards_reply 0 (Resolved (Some (b # bs))),
        Board_reply 1 (Resolved (Some snapshot))] (mount guest)) =
       [GET_boards, GET_board (summary_id b)]"
    by (simp add: mount_def initial_def new_WebSocket_def loadBoard_def send_def dispatch_def
        settle_def loadBoard_boards_def loadBoard_board_def render_def)
  have f2: "board (run [Boards_reply 0 (Resolved (Some (b # bs))),
        Board_reply 1 (Resolved (Some snapshot))] (mount guest)) = Some snapshot"
    by (simp add: mount_def initial_def new_WebSocket_def loadBoard_def send_def dispatch_def
        settle_def loadBoard_boards_def loadBoard_board_def render_def)
  have f3: "requests (run [Boards_reply 0 (Resolved (Some []))] (mount guest)) = [GET_boards]"
    by (simp add: mount_def initial_def new_WebSocket_def loadBoard_def send_def dispatch_def
        settle_def loadBoard_boards_def loadBoard_board_def render_def)
  have f4: "board (run [Boards_reply 0 (Resolved (Some []))] (mount guest)) = None"
    by (simp add: mount_def initial_def new_WebSocket_def loadBoard_def send_def dispatch_def
        settle_def loadBoard_boards_def loadBoard_board_def render_def)
  show ?thesis
    using a b g h e first second f1 f2 f3 f4 by blast
qed

theorem C10_load_first_board_witness:
  "numbered loaded_page \<and> recognized card_moved \<and>
   \<not> list_ex (reply_to (length (requests loaded_page))) [Message 0 card_moved] \<and>
   \<not> list_ex (reply_to (length (requests (run [Message 0 card_moved] (loadBoard loaded_page)))))
       [Boards_reply 3 (Resolved (Some []))] \<and>
   onmessage card_moved loaded_page =
     (None, loadBoard (console_log ''WebSocket message:'' loaded_page)) \<and>
   requests (loadBoard loaded_page) = requests loaded_page @ [GET_boards] \<and>
   board (snd (step (Board_reply (length (requests (run [Message 0 card_moved] (loadBoard loaded_page))))
         (Resolved (Some todo_board)))
       (run [Boards_reply 3 (Resolved (Some []))]
          (snd (dispatch (Boards_reply (length (requests loaded_page))
                (Resolved (Some [\<lparr>summary_id = ''b2''\<rparr>])))
             (run [Message 0 card_moved] (loadBoard loaded_page))))))) = Some todo_board"
proof -
  have a: "numbered loaded_page" by code_simp
  have b: "recognized card_moved" by code_simp
  have q1: "\<not> list_ex (reply_to (length (requests loaded_page))) [Message 0 card_moved]"
    by simp
  have q2: "\<not> list_ex (reply_to (length (requests (run [Message 0 card_moved] (loadBoard loaded_page)))))
       [Boards_reply 3 (Resolved (Some []))]"
    by code_simp
  note load = C10_load_first_board [OF a b, where ?es1.0 = "[Message 0 card_moved]"
      and ?es2.0 = "[Boards_reply 3 (Resolved (Some []))]" and b = "\<lparr>summary_id = ''b2''\<rparr>"
      and bs = "[]" and snapshot = todo_board]
  show ?thesis
    using a b q1 q2 load by blast
qed

end
